theory Spec2Isabelle
  imports Complex_Main "HOL-Library.Sublist"
begin

section \<open>JavaScript values\<close>

text \<open>
  The options object reaches \<open>#generateArgs\<close> unchecked, so every field is a
  dynamically typed value. A finite number is the rational it denotes; \<open>NaN\<close> and the
  two infinities are values of their own.
\<close>

datatype number = Finite rat | NaN | PosInfinity | NegInfinity

datatype jsval =
    Undefined
  | Null
  | Bool bool
  | Num number
  | Str string
  | Arr "jsval list"
  | Obj

text \<open>ToBoolean: what \<open>if (v)\<close> and \<open>!v\<close> test.\<close>

fun truthy :: "jsval \<Rightarrow> bool" where
  "truthy Undefined = False"
| "truthy Null = False"
| "truthy (Bool b) = b"
| "truthy (Num (Finite r)) = (r \<noteq> 0)"
| "truthy (Num NaN) = False"
| "truthy (Num PosInfinity) = True"
| "truthy (Num NegInfinity) = True"
| "truthy (Str s) = (s \<noteq> [])"
| "truthy (Arr xs) = True"
| "truthy Obj = True"

text \<open>\<open>typeof v === 'string'\<close> and \<open>Array.isArray(v)\<close>.\<close>

fun isString :: "jsval \<Rightarrow> bool" where
  "isString (Str s) = True"
| "isString v = False"

fun isArray :: "jsval \<Rightarrow> bool" where
  "isArray (Arr xs) = True"
| "isArray v = False"

text \<open>\<open>Number.isInteger\<close>: a number, finite, with no fractional part. No coercion.\<close>

fun isInteger :: "jsval \<Rightarrow> bool" where
  "isInteger (Num (Finite r)) = (of_int \<lfloor>r\<rfloor> = r)"
| "isInteger v = False"

subsection \<open>Number to string\<close>

definition digit :: "nat \<Rightarrow> char" where
  "digit d = ''0123456789'' ! (d mod 10)"

fun decimal :: "nat \<Rightarrow> string" where
  "decimal n = (if n < 10 then [digit n] else decimal (n div 10) @ [digit (n mod 10)])"

declare decimal.simps [simp del]

text \<open>
  Number::toString of an integral value \<open>i\<close>. Below \<open>10^21\<close> in magnitude the result
  is the plain decimal numeral. From \<open>10^21\<close> on, ECMAScript prints the shortest
  significand \<open>s\<close> that reads back as the same double, in exponent form: first digit,
  a point and the other digits when there are any, \<open>e+\<close> and the exponent. Which
  \<open>s\<close> and exponent that is depends on the double's rounding, so the pair is supplied
  by the parameter \<open>shortest\<close>.
\<close>

definition exponent_form :: "nat \<times> nat \<Rightarrow> string" where
  "exponent_form se =
     (let ds = decimal (fst se)
      in (if tl ds = [] then ds else hd ds # CHR ''.'' # tl ds) @ ''e+'' @ decimal (snd se))"

definition String_integer :: "(nat \<Rightarrow> nat \<times> nat) \<Rightarrow> int \<Rightarrow> string" where
  "String_integer shortest i =
     (if i < 0 then ''-'' else []) @
     (if \<bar>i\<bar> < 10 ^ 21 then decimal (nat \<bar>i\<bar>) else exponent_form (shortest (nat \<bar>i\<bar>)))"

text \<open>\<open>String(v)\<close>, for the values the code applies it to.\<close>

fun String_js :: "(nat \<Rightarrow> nat \<times> nat) \<Rightarrow> jsval \<Rightarrow> string" where
  "String_js sh (Num (Finite r)) = String_integer sh \<lfloor>r\<rfloor>"
| "String_js sh (Num NaN) = ''NaN''"
| "String_js sh (Num PosInfinity) = ''Infinity''"
| "String_js sh (Num NegInfinity) = ''-Infinity''"
| "String_js sh Undefined = ''undefined''"
| "String_js sh Null = ''null''"
| "String_js sh (Bool b) = (if b then ''true'' else ''false'')"
| "String_js sh (Str s) = s"
| "String_js sh v = ''[object]''"

text \<open>\<open>Array.prototype.join\<close> on an array of strings, and \<open>toLowerCase\<close> on ASCII.\<close>

fun join_with :: "string \<Rightarrow> string list \<Rightarrow> string" where
  "join_with sep [] = []"
| "join_with sep [x] = x"
| "join_with sep (x # y # ys) = x @ sep @ join_with sep (y # ys)"

fun the_Str :: "jsval \<Rightarrow> string" where
  "the_Str (Str s) = s"
| "the_Str v = []"

definition toLowerCase :: "string \<Rightarrow> string" where
  "toLowerCase s =
     map (\<lambda>c. if (65::nat) \<le> of_char c \<and> of_char c \<le> (90::nat)
              then char_of (of_char c + (32::nat)) else c) s"

section \<open>shell.ts: styles\<close>

definition RESET :: string where
  "RESET = [CHR 0x1B] @ ''[0m''"

definition UNDERLINE :: string where
  "UNDERLINE = [CHR 0x1B] @ ''[4m''"

definition print :: "string \<Rightarrow> string \<Rightarrow> string" where
  "print text style = style @ text @ RESET"

definition underline :: "string \<Rightarrow> string" where
  "underline text = print text UNDERLINE"

section \<open>node:path, POSIX flavour\<close>

text \<open>
  The code imports \<open>join\<close>, \<open>normalize\<close>, \<open>resolve\<close> and \<open>parse\<close> from
  \<open>node:path\<close>. They are modelled as Node implements them on POSIX: a path is cut at
  \<open>/\<close>, empty and \<open>.\<close> segments are dropped, and \<open>..\<close> removes the segment before
  it (or stays, in a relative path that has nothing left to remove).
\<close>

fun split_slash :: "string \<Rightarrow> string list" where
  "split_slash [] = [[]]"
| "split_slash (c # cs) =
     (if c = CHR ''/'' then [] # split_slash cs
      else (case split_slash cs of [] \<Rightarrow> [[c]] | s # ss \<Rightarrow> (c # s) # ss))"

text \<open>One segment against the stack of segments kept so far (innermost first).\<close>

fun norm_step :: "bool \<Rightarrow> string list \<Rightarrow> string \<Rightarrow> string list" where
  "norm_step allowAboveRoot st seg =
     (if seg = [] \<or> seg = ''.'' then st
      else if seg = ''..'' then
        (case st of
           [] \<Rightarrow> if allowAboveRoot then [''..''] else []
         | s # rest \<Rightarrow>
             if s = ''..'' then (if allowAboveRoot then ''..'' # st else st) else rest)
      else seg # st)"

definition normalizeString :: "string \<Rightarrow> bool \<Rightarrow> string" where
  "normalizeString path allowAboveRoot =
     join_with ''/'' (rev (foldl (norm_step allowAboveRoot) [] (split_slash path)))"

definition isAbsolute :: "string \<Rightarrow> bool" where
  "isAbsolute path = (case path of [] \<Rightarrow> False | c # cs \<Rightarrow> c = CHR ''/'')"

definition path_normalize :: "string \<Rightarrow> string" where
  "path_normalize path =
     (if path = [] then ''.''
      else
        let trailingSeparator = (last path = CHR ''/'');
            p = normalizeString path (\<not> isAbsolute path)
        in if p = [] then
             (if isAbsolute path then ''/'' else if trailingSeparator then ''./'' else ''.'')
           else
             (if isAbsolute path then ''/'' else []) @ p @ (if trailingSeparator then ''/'' else []))"

text \<open>\<open>join(...args)\<close>: the non-empty arguments, glued with \<open>/\<close>, normalized.\<close>

definition join :: "string list \<Rightarrow> string" where
  "join args =
     (let parts = filter (\<lambda>a. a \<noteq> []) args
      in if parts = [] then ''.'' else path_normalize (join_with ''/'' parts))"

text \<open>
  \<open>resolve(path)\<close> with one argument: the path itself when absolute, else taken from
  the current working directory \<open>cwd\<close>.
\<close>

definition path_resolve :: "string \<Rightarrow> string \<Rightarrow> string" where
  "path_resolve cwd path =
     (let resolvedPath =
            (if path = [] then (if cwd = [] then [] else cwd @ ''/'')
             else if isAbsolute path \<or> cwd = [] then path @ ''/''
             else cwd @ ''/'' @ path @ ''/'');
          resolvedAbsolute = isAbsolute resolvedPath;
          p = normalizeString resolvedPath (\<not> resolvedAbsolute)
      in if resolvedAbsolute then ''/'' @ p else if p = [] then ''.'' else p)"

text \<open>
  \<open>parse(path).name\<close>: the last segment, trailing separators apart, without its
  extension. The extension starts at the last dot of the segment, unless that dot is
  the segment's first character or the segment is \<open>..\<close>.
\<close>

definition basename :: "string \<Rightarrow> string" where
  "basename path =
     rev (takeWhile (\<lambda>c. c \<noteq> CHR ''/'') (dropWhile (\<lambda>c. c = CHR ''/'') (rev path)))"

definition parse_name :: "string \<Rightarrow> string" where
  "parse_name path =
     (let base = basename path;
          ext = rev (takeWhile (\<lambda>c. c \<noteq> CHR ''.'') (rev base));
          stem = take (length base - length ext - 1) base
      in if CHR ''.'' \<in> set base \<and> stem \<noteq> [] \<and> base \<noteq> ''..'' then stem else base)"

section \<open>error.ts, effects and the environment\<close>

record js_error =
  name :: string
  message :: string

text \<open>
  What the code does to the outside, in program order. The console calls of
  \<open>shell.ts\<close> are recorded by the \<open>log\<close> function called and its arguments;
  their colouring is not part of the model.
\<close>

datatype effect =
    Mkdir string
  | Rm string
  | Spawn string "string list"
  | Kill
  | Log_error string string
  | Log_warning string
  | Log_info string
  | Log_success string
  | Log_fail string
  | Stdout string
  | Clear_line
  | Progress nat string
  | Print_summary
  | Question string
  | Set_interval
  | Clear_interval
  | Set_timeout
  | Destroy_request
  | Extract string

text \<open>
  \<open>new DynamoDBLocalError(name, message, verbose)\<close>: the error value, and the
  \<open>log.error\<close> its constructor makes when \<open>verbose\<close>.
\<close>

definition DynamoDBLocalError :: "string \<Rightarrow> string \<Rightarrow> bool \<Rightarrow> js_error \<times> effect list" where
  "DynamoDBLocalError n msg verbose =
     (\<lparr>name = n, message = msg\<rparr>, if verbose then [Log_error n msg] else [])"

datatype dirent = Dirent (d_name: string) (isFile: bool) (isDirectory: bool)

record child =
  pid :: "nat option"
  kill_result :: bool

datatype body = Complete | Stream_error js_error | Extract_error js_error

record response =
  content_length :: "string option"
  chunks :: "nat list"
  body :: body

datatype http = Response response | Timeout | Request_error js_error

text \<open>
  The environment of one call: what the operating system, the network, the user at
  the prompt and the spawned process answer. \<open>readdir\<close>, \<open>mkdir\<close> and \<open>rm\<close> give
  the outcome of the call of that name on a path (\<open>mkdir\<close> and \<open>rm\<close> with
  \<open>{recursive: true}\<close>; \<open>None\<close> is success). \<open>libIndex\<close> is the manifest of
  \<open>lib-index.ts\<close>, a file that is not among the sources, so it is a parameter.
\<close>

record world =
  cwd :: string
  dirname :: string
  shortest :: "nat \<Rightarrow> nat \<times> nat"
  libIndex :: "string list"
  readdir :: "string \<Rightarrow> js_error + dirent list"
  mkdir :: "string \<Rightarrow> js_error option"
  rm :: "string \<Rightarrow> js_error option"
  answer :: string
  network :: http
  spawned :: child

section \<open>dynamodb-local.ts\<close>

record options =
  cors :: jsval
  dbPath :: jsval
  delayTransientStatuses :: jsval
  inMemory :: jsval
  port :: jsval
  sharedDB :: jsval
  opt_install :: jsval

text \<open>The object \<open>{}\<close>: every field \<open>undefined\<close>.\<close>

definition no_options :: options where
  "no_options =
     \<lparr>cors = Undefined, dbPath = Undefined, delayTransientStatuses = Undefined,
      inMemory = Undefined, port = Undefined, sharedDB = Undefined, opt_install = Undefined\<rparr>"

record manager =
  path :: string
  verbose :: bool
  dynamodb :: "child option"

definition defaultPath :: "world \<Rightarrow> string" where
  "defaultPath w = join [dirname w, ''..'', ''dynamodb'']"

text \<open>The constructor: the path is resolved once, no process is held.\<close>

definition new_manager :: "world \<Rightarrow> string \<Rightarrow> bool \<Rightarrow> manager" where
  "new_manager w p v =
     \<lparr>path = path_resolve (cwd w) (path_normalize p), verbose = v, dynamodb = None\<rparr>"

definition throw :: "js_error \<times> effect list \<Rightarrow> (js_error + 'a) \<times> effect list" where
  "throw e = (Inl (fst e), snd e)"

subsection \<open>\<open>#find\<close>\<close>

definition find_ddb :: "world \<Rightarrow> string \<Rightarrow> bool" where
  "find_ddb w path0 =
     (let p = path_resolve (cwd w) (path_normalize path0)
      in case readdir w p of
           Inl e \<Rightarrow> False
         | Inr files \<Rightarrow>
             let jar = list_ex (\<lambda>file. d_name file = ''DynamoDBLocal.jar'' \<and> isFile file) files;
                 lib = list_ex (\<lambda>file. d_name file = ''DynamoDBLocal_lib'' \<and> isDirectory file) files
             in if jar \<and> lib then
                  (case readdir w (join [p, ''DynamoDBLocal_lib'']) of
                     Inl e \<Rightarrow> False
                   | Inr libFiles \<Rightarrow>
                       list_all (\<lambda>file. file \<in> set (map d_name libFiles)) (libIndex w))
                else False)"

subsection \<open>\<open>#generateArgs\<close>\<close>

fun elems :: "jsval \<Rightarrow> jsval list" where
  "elems (Arr xs) = xs"
| "elems v = []"

definition generateArgs :: "world \<Rightarrow> manager \<Rightarrow> options \<Rightarrow> (js_error + string list) \<times> effect list" where
  "generateArgs w m opts =
     (let libpath = join [path m, ''DynamoDBLocal_lib''];
          jarpath = join [path m, ''DynamoDBLocal.jar''];
          args0 = [''-Djava.library.path='' @ libpath, ''-jar'', jarpath];
          args1 = args0 @
            (if isArray (cors opts) \<and> elems (cors opts) \<noteq> [] \<and> list_all isString (elems (cors opts))
             then [''-cors'', join_with '', '' (map the_Str (elems (cors opts)))] else [])
      in if port opts \<noteq> Undefined \<and> \<not> isInteger (port opts) then
           throw (DynamoDBLocalError ''config error'' ''Port must be an Integer'' (verbose m))
         else
           let args2 = args1 @
                 (if port opts \<noteq> Undefined then [''-port'', String_js (shortest w) (port opts)] else [])
           in if truthy (inMemory opts) \<and> truthy (dbPath opts) then
                throw (DynamoDBLocalError ''config error''
                  (''When option '' @ underline ''dbPath'' @ '' is set, option '' @
                   underline ''inMemory'' @ '' cannot be used and must be omitted'') (verbose m))
              else
                let args3 = args2 @ (if truthy (inMemory opts) then [''-inMemory''] else []);
                    given = truthy (dbPath opts) \<and> isString (dbPath opts) \<and> \<not> truthy (inMemory opts);
                    given_path = path_resolve (cwd w) (path_normalize (the_Str (dbPath opts)));
                    args4 = args3 @
                      (if given then [''-dbPath'', given_path, ''-optimizeDbBeforeStartup''] else []);
                    dflt = \<not> truthy (dbPath opts) \<and> \<not> truthy (inMemory opts);
                    dflt_path = join [path m, ''DynamoDBLocal_db''];
                    args5 = args4 @ (if dflt then [''-dbPath'', dflt_path] else []);
                    args6 = args5 @
                      (if truthy (delayTransientStatuses opts) then [''-delayTransientStatuses''] else []);
                    args7 = args6 @ (if truthy (sharedDB opts) then [''-sharedDb''] else [])
                in (Inr args7,
                    (if given then [Mkdir given_path] else []) @
                    (if dflt then [Mkdir dflt_path] else [])))"

subsection \<open>\<open>uninstall\<close>\<close>

definition uninstall :: "world \<Rightarrow> manager \<Rightarrow> (js_error + unit) \<times> effect list" where
  "uninstall w m =
     (if \<not> find_ddb w (path m) then
        throw (DynamoDBLocalError ''error''
          (''DynamoDB is not installed at '' @ underline (path m)) (verbose m))
      else if path m = defaultPath w then
        (case rm w (path m) of
           None \<Rightarrow>
             (Inr (), [Rm (path m)] @ (if verbose m then [Log_info ''DYNAMODB UNINSTALLED''] else []))
         | Some error \<Rightarrow>
             (let e = DynamoDBLocalError (name error) (message error) (verbose m)
              in (Inl (fst e), [Rm (path m)] @ snd e)))
      else
        let files =
              [join [path m, ''DynamoDBLocal_lib''],
               join [path m, ''DynamoDBLocal.jar''],
               join [path m, ''LICENSE.txt''],
               join [path m, ''README.txt''],
               join [path m, ''THIRD-PARTY-LICENSES.txt'']];
            rejected = map parse_name (filter (\<lambda>file. rm w file \<noteq> None) files)
        in if rejected \<noteq> [] then
             (if ''DynamoDBLocal_lib'' \<in> set rejected \<or> ''DynamoDBLocal.jar'' \<in> set rejected then
                (let e = DynamoDBLocalError ''uninstall error''
                       (''The following files could not be removed: ['' @
                        join_with '', '' rejected @ '']'') (verbose m)
                 in (Inl (fst e), map Rm files @ snd e))
              else
                (Inr (), map Rm files @
                   (if verbose m then
                      [Log_warning
                         (''DynamoDB was successfully uninstalled but the following files were not removed: ['' @
                          join_with '', '' rejected @ '']'')]
                    else [])))
           else
             (Inr (), map Rm files @ (if verbose m then [Log_info ''DYNAMODB UNINSTALLED''] else [])))"

section \<open>download-dynamodb.ts\<close>

text \<open>
  The response callback of \<open>downloadDynamoDB\<close>: the settlement of the promise and
  the effects, for a response whose body then arrives as \<open>chunks res\<close> and ends as
  \<open>body res\<close>. A header that is absent, or present and empty, is falsy.
\<close>

definition on_response :: "world \<Rightarrow> string \<Rightarrow> bool \<Rightarrow> response \<Rightarrow> (js_error + unit) \<times> effect list" where
  "on_response w destination verbose' res =
     (let newline = (if verbose' then [Stdout ''\<newline>''] else [])
      in case content_length res of
           None \<Rightarrow>
             (let thrown = DynamoDBLocalError ''error'' ''Unable to determine response size'' verbose';
                  e = DynamoDBLocalError (name (fst thrown)) (message (fst thrown)) verbose'
              in (Inl (fst e), snd thrown @ newline @ snd e))
         | Some len \<Rightarrow>
             if len = [] then
               (let thrown = DynamoDBLocalError ''error'' ''Unable to determine response size'' verbose';
                    e = DynamoDBLocalError (name (fst thrown)) (message (fst thrown)) verbose'
                in (Inl (fst e), snd thrown @ newline @ snd e))
             else
               (case mkdir w destination of
                  Some error \<Rightarrow>
                    (let e = DynamoDBLocalError (name error) (message error) verbose'
                     in (Inl (fst e), [Mkdir destination] @ newline @ snd e))
                | None \<Rightarrow>
                    (let progress =
                           (if verbose'
                            then concat (map (\<lambda>written. [Clear_line, Progress written len])
                                   (tl (rev (foldl (\<lambda>acc n. (hd acc + n) # acc) [0] (chunks res)))))
                            else []);
                         started = [Mkdir destination, Extract destination] @ progress
                     in case body res of
                          Complete \<Rightarrow>
                            (Inr (), started @
                               (if verbose' then [Clear_line, Log_success ''installation complete''] else []))
                        | Stream_error error \<Rightarrow>
                            (let first = DynamoDBLocalError ''network error'' (message error) verbose';
                                 second = DynamoDBLocalError (name error) (message error) verbose'
                             in (Inl (fst first),
                                 started @ newline @ snd first @ newline @ snd second))
                        | Extract_error error \<Rightarrow>
                            (let e = DynamoDBLocalError (name error) (message error) verbose'
                             in (Inl (fst e), started @ newline @ snd e)))))"

definition downloadDynamoDB :: "world \<Rightarrow> string \<Rightarrow> bool \<Rightarrow> (js_error + unit) \<times> effect list" where
  "downloadDynamoDB w destination verbose' =
     (let newline = (if verbose' then [Stdout ''\<newline>''] else [])
      in case network w of
           Response res \<Rightarrow> on_response w destination verbose' res
         | Timeout \<Rightarrow>
             (let e = DynamoDBLocalError ''network error'' ''Request timed out'' verbose'
              in (Inl (fst e), [Destroy_request] @ newline @ snd e))
         | Request_error error \<Rightarrow>
             (let e = DynamoDBLocalError (name error) (message error) verbose'
              in (Inl (fst e), newline @ snd e)))"

section \<open>dynamodb-local.ts: the lifecycle\<close>

definition accepted :: "string \<Rightarrow> bool" where
  "accepted ans = (toLowerCase ans \<in> set [''y'', ''yes'', ''ok''])"

subsection \<open>\<open>install\<close>\<close>

definition install :: "world \<Rightarrow> manager \<Rightarrow> jsval \<Rightarrow> (js_error + unit) \<times> effect list" where
  "install w m update =
     (if find_ddb w (path m) then
        (if verbose m then
           (let asked =
                  [Question (''DynamoDB is already installed at: '' @ underline (path m) @
                     ''\<newline>'' @ ''Overwrite current installation? (Y/N): '')]
            in if \<not> accepted (answer w) then (Inr (), asked @ [Log_fail ''installation canceled''])
               else (let d = downloadDynamoDB w (path m) (verbose m) in (fst d, asked @ snd d)))
         else if \<not> truthy update then (Inr (), [])
         else downloadDynamoDB w (path m) (verbose m))
      else downloadDynamoDB w (path m) (verbose m))"

subsection \<open>\<open>start\<close>\<close>

text \<open>
  \<open>start\<close> up to the point where it hands back its promise: rejected, resolved
  (the user declined to install), or still pending on the events of the child just
  spawned. The manager comes back with the handle it then holds.
\<close>

datatype start_result = Rejects js_error | Resolves | Pending

definition String_pid :: "child \<Rightarrow> string" where
  "String_pid c = (case pid c of None \<Rightarrow> ''undefined'' | Some n \<Rightarrow> decimal n)"

definition launch :: "world \<Rightarrow> manager \<Rightarrow> options option \<Rightarrow> effect list \<Rightarrow> start_result \<times> manager \<times> effect list" where
  "launch w m args before =
     (case generateArgs w m (case args of None \<Rightarrow> no_options | Some a \<Rightarrow> a) of
        (Inl e, effs) \<Rightarrow> (Rejects e, m, before @ effs)
      | (Inr argv, effs) \<Rightarrow>
          (Pending, m\<lparr>dynamodb := Some (spawned w)\<rparr>,
           before @ effs @
           (if verbose m then [Stdout ''Initializing DynamoDB''] else []) @
           [Spawn ''java'' argv] @
           (if verbose m then [Set_interval] else [])))"

definition start :: "world \<Rightarrow> manager \<Rightarrow> options option \<Rightarrow> start_result \<times> manager \<times> effect list" where
  "start w m args =
     (case dynamodb m of
        Some c \<Rightarrow>
          (let e = DynamoDBLocalError ''error''
                 (''DynamoDB process is already running with pid: '' @ underline (String_pid c))
                 (verbose m)
           in (Rejects (fst e), m, snd e))
      | None \<Rightarrow>
          if find_ddb w (path m) then launch w m args []
          else if verbose m then
            (let asked =
                   [Log_warning (''DynamoDB not found at '' @ underline (path m)),
                    Question ''Do you want to download and install now? (Y/N): '']
             in if \<not> accepted (answer w) then (Resolves, m, asked)
                else
                  (case install w m Undefined of
                     (Inl e, effs) \<Rightarrow> (Rejects e, m, asked @ effs)
                   | (Inr u, effs) \<Rightarrow> launch w m args (asked @ effs)))
          else if truthy (case args of None \<Rightarrow> Undefined | Some a \<Rightarrow> opt_install a) then
            (case install w m Undefined of
               (Inl e, effs) \<Rightarrow> (Rejects e, m, effs)
             | (Inr u, effs) \<Rightarrow> launch w m args effs)
          else
            (let e = DynamoDBLocalError ''error''
                   (''DynamoDB not found at '' @ underline (path m)) (verbose m)
             in (Rejects (fst e), m, snd e)))"

subsection \<open>The listeners of a pending \<open>start\<close>\<close>

text \<open>
  The promise \<open>start\<close> returned and the readiness timers not yet fired. The code
  attaches listeners to the child's \<open>exit\<close> and \<open>error\<close> events (the latter twice)
  and to the \<open>data\<close> event of its standard output, and to nothing else.
\<close>

record starting =
  promise :: "(js_error + unit) option"
  timers :: nat

definition spawned_state :: starting where
  "spawned_state = \<lparr>promise = None, timers = 0\<rparr>"

datatype event =
    Child_error js_error
  | Child_exit
  | Stdout_data string
  | Stderr_data string
  | Timer_fires

definition settle :: "js_error + unit \<Rightarrow> starting \<Rightarrow> starting" where
  "settle r s = (case promise s of None \<Rightarrow> s\<lparr>promise := Some r\<rparr> | Some r0 \<Rightarrow> s)"

text \<open>
  The summary printed in verbose mode calls \<open>path_resolve\<close> on \<open>dbPath\<close> and
  \<open>join\<close> on \<open>cors\<close>; a value without that shape makes the timer callback throw
  before it resolves.
\<close>

definition summary_throws :: "options \<Rightarrow> bool" where
  "summary_throws a =
     ((\<not> truthy (inMemory a) \<and> dbPath a \<noteq> Undefined \<and> dbPath a \<noteq> Null \<and> \<not> isString (dbPath a))
      \<or> (cors a \<noteq> Undefined \<and> cors a \<noteq> Null \<and> \<not> isArray (cors a)))"

definition on_event :: "manager \<Rightarrow> options option \<Rightarrow> event \<Rightarrow> starting \<Rightarrow> starting \<times> effect list" where
  "on_event m args ev s =
     (case ev of
        Child_error error \<Rightarrow>
          (let e1 = DynamoDBLocalError (name error) (message error) (verbose m);
               e2 = DynamoDBLocalError (name error) (message error) (verbose m)
           in (settle (Inl (fst e2)) (settle (Inl (fst e1)) s),
               [Clear_interval] @ snd e1 @ [Clear_interval] @
               (if verbose m then [Stdout ''\<newline>''] else []) @ snd e2))
      | Child_exit \<Rightarrow> (s, if verbose m then [Log_fail ''dynamodb terminated''] else [])
      | Stdout_data d \<Rightarrow>
          if sublist ''CorsParams'' d then (s\<lparr>timers := Suc (timers s)\<rparr>, [Set_timeout]) else (s, [])
      | Stderr_data d \<Rightarrow> (s, [])
      | Timer_fires \<Rightarrow>
          if timers s = 0 then (s, [])
          else if verbose m then
            (if summary_throws (case args of None \<Rightarrow> no_options | Some a \<Rightarrow> a)
             then (s\<lparr>timers := timers s - 1\<rparr>, [Clear_interval, Clear_line])
             else (settle (Inr ()) (s\<lparr>timers := timers s - 1\<rparr>),
                   [Clear_interval, Clear_line, Print_summary]))
          else (settle (Inr ()) (s\<lparr>timers := timers s - 1\<rparr>), [Clear_interval]))"

fun run_events :: "manager \<Rightarrow> options option \<Rightarrow> event list \<Rightarrow> starting \<Rightarrow> starting \<times> effect list" where
  "run_events m args [] s = (s, [])"
| "run_events m args (ev # evs) s =
     (let r1 = on_event m args ev s;
          r2 = run_events m args evs (fst r1)
      in (fst r2, snd r1 @ snd r2))"

subsection \<open>\<open>stop\<close>\<close>

text \<open>
  \<open>stop\<close> is not an \<open>async\<close> function: it returns \<open>undefined\<close> after a kill
  that succeeded, and \<open>Promise.reject(...)\<close> otherwise.
\<close>

datatype stop_result = Returns_undefined | Rejected_promise js_error

definition stop :: "manager \<Rightarrow> stop_result \<times> manager \<times> effect list" where
  "stop m =
     (let not_killed = DynamoDBLocalError ''error''
            ''Requested DynamoDB process not killed because it was not running'' (verbose m)
      in case dynamodb m of
           None \<Rightarrow> (Rejected_promise (fst not_killed), m, snd not_killed)
         | Some c \<Rightarrow>
             if kill_result c then
               (Returns_undefined, m\<lparr>dynamodb := None\<rparr>,
                [Kill] @ (if verbose m then [Log_info ''DynamoDB process terminated''] else []))
             else (Rejected_promise (fst not_killed), m, [Kill] @ snd not_killed))"

section \<open>The argument list in parts\<close>

text \<open>
  The list \<open>#generateArgs\<close> returns, cut where the code pushes: the fixed head, then
  what each option adds. \<open>generateArgs_cases\<close> below shows that the function is the
  concatenation of these parts behind its two checks.
\<close>

definition base_args :: "manager \<Rightarrow> string list" where
  "base_args m =
     [''-Djava.library.path='' @ join [path m, ''DynamoDBLocal_lib''], ''-jar'',
      join [path m, ''DynamoDBLocal.jar'']]"

definition cors_valid :: "jsval \<Rightarrow> bool" where
  "cors_valid v = (isArray v \<and> elems v \<noteq> [] \<and> list_all isString (elems v))"

definition cors_args :: "options \<Rightarrow> string list" where
  "cors_args opts =
     (if cors_valid (cors opts) then [''-cors'', join_with '', '' (map the_Str (elems (cors opts)))]
      else [])"

definition port_args :: "world \<Rightarrow> options \<Rightarrow> string list" where
  "port_args w opts =
     (if port opts \<noteq> Undefined then [''-port'', String_js (shortest w) (port opts)] else [])"

definition given_dbPath :: "options \<Rightarrow> bool" where
  "given_dbPath opts = (truthy (dbPath opts) \<and> isString (dbPath opts) \<and> \<not> truthy (inMemory opts))"

definition default_dbPath :: "options \<Rightarrow> bool" where
  "default_dbPath opts = (\<not> truthy (dbPath opts) \<and> \<not> truthy (inMemory opts))"

definition storage_args :: "world \<Rightarrow> manager \<Rightarrow> options \<Rightarrow> string list" where
  "storage_args w m opts =
     (if truthy (inMemory opts) then [''-inMemory''] else []) @
     (if given_dbPath opts
      then [''-dbPath'', path_resolve (cwd w) (path_normalize (the_Str (dbPath opts))),
            ''-optimizeDbBeforeStartup'']
      else []) @
     (if default_dbPath opts then [''-dbPath'', join [path m, ''DynamoDBLocal_db'']] else [])"

definition flag_args :: "options \<Rightarrow> string list" where
  "flag_args opts =
     (if truthy (delayTransientStatuses opts) then [''-delayTransientStatuses''] else []) @
     (if truthy (sharedDB opts) then [''-sharedDb''] else [])"

definition mkdirs :: "world \<Rightarrow> manager \<Rightarrow> options \<Rightarrow> effect list" where
  "mkdirs w m opts =
     (if given_dbPath opts
      then [Mkdir (path_resolve (cwd w) (path_normalize (the_Str (dbPath opts))))] else []) @
     (if default_dbPath opts then [Mkdir (join [path m, ''DynamoDBLocal_db''])] else [])"

definition port_error :: js_error where
  "port_error = \<lparr>name = ''config error'', message = ''Port must be an Integer''\<rparr>"

definition conflict_error :: js_error where
  "conflict_error =
     \<lparr>name = ''config error'',
      message = ''When option '' @ underline ''dbPath'' @ '' is set, option '' @
                underline ''inMemory'' @ '' cannot be used and must be omitted''\<rparr>"

definition logged :: "bool \<Rightarrow> js_error \<Rightarrow> effect list" where
  "logged v e = (if v then [Log_error (name e) (message e)] else [])"

definition plain :: "string \<Rightarrow> bool" where
  "plain seg = (CHR ''/'' \<notin> set seg \<and> seg \<noteq> [] \<and> seg \<noteq> ''.'' \<and> seg \<noteq> ''..'')"

definition clean :: "string list \<Rightarrow> bool" where
  "clean segs = list_all plain segs"

section \<open>A concrete environment\<close>

text \<open>
  An installation under \<open>/opt/ddb\<close>, complete with respect to a two-entry manifest,
  with one manager of each variant bound to it.
\<close>

definition demo_child :: child where
  "demo_child = \<lparr>pid = Some 4242, kill_result = True\<rparr>"

definition enoent :: js_error where
  "enoent = \<lparr>name = ''Error'', message = ''ENOENT: no such file or directory''\<rparr>"

definition eacces :: js_error where
  "eacces = \<lparr>name = ''Error'', message = ''EACCES: permission denied''\<rparr>"

definition demo_world :: world where
  "demo_world =
     \<lparr>cwd = ''/home/dev'', dirname = ''/app/lib'', shortest = (\<lambda>n. (1, 21)),
      libIndex = [''libsqlite4java-linux-amd64.so'', ''sqlite4java.jar''],
      readdir = (\<lambda>p.
        if p = ''/opt/ddb'' then
          Inr [Dirent ''DynamoDBLocal.jar'' True False, Dirent ''DynamoDBLocal_lib'' False True,
               Dirent ''README.txt'' True False]
        else if p = ''/opt/ddb/DynamoDBLocal_lib'' then
          Inr [Dirent ''sqlite4java.jar'' True False,
               Dirent ''libsqlite4java-linux-amd64.so'' True False,
               Dirent ''extra.jar'' True False]
        else Inl enoent),
      mkdir = (\<lambda>p. None), rm = (\<lambda>p. None), answer = ''n'', network = Timeout,
      spawned = demo_child\<rparr>"

definition lib_manager :: manager where
  "lib_manager = \<lparr>path = ''/opt/ddb'', verbose = False, dynamodb = None\<rparr>"

definition cli_manager :: manager where
  "cli_manager = \<lparr>path = ''/opt/ddb'', verbose = True, dynamodb = None\<rparr>"

definition denied_world :: world where
  "denied_world = demo_world\<lparr>mkdir := (\<lambda>p. Some eacces)\<rparr>"

definition jar_stuck_world :: world where
  "jar_stuck_world =
     demo_world\<lparr>rm := (\<lambda>p. if p = ''/opt/ddb/DynamoDBLocal.jar'' then Some eacces else None)\<rparr>"

section \<open>Evaluation lemmas\<close>

lemma decimal_4242: "decimal 4242 = ''4242''"
  by (simp add: decimal.simps digit_def)

lemma generateArgs_cases:
  "generateArgs w m opts =
     (if port opts \<noteq> Undefined \<and> \<not> isInteger (port opts) then (Inl port_error, logged (verbose m) port_error)
      else if truthy (inMemory opts) \<and> truthy (dbPath opts)
           then (Inl conflict_error, logged (verbose m) conflict_error)
      else (Inr (base_args m @ cors_args opts @ port_args w opts @ storage_args w m opts @ flag_args opts),
            mkdirs w m opts))"
  by (simp add: generateArgs_def Let_def throw_def DynamoDBLocalError_def port_error_def
      conflict_error_def logged_def base_args_def cors_args_def cors_valid_def port_args_def
      storage_args_def given_dbPath_def default_dbPath_def flag_args_def mkdirs_def)

lemma isInteger_Ints: "isInteger (Num (Finite r)) = (r \<in> \<int>)"
  by (auto simp add: Ints_def)

lemma generateArgs_Inr:
  "fst (generateArgs w m opts) = Inr args \<Longrightarrow>
   args = base_args m @ cors_args opts @ port_args w opts @ storage_args w m opts @ flag_args opts"
  by (auto simp add: generateArgs_cases split: if_splits)

lemmas path_eval =
  join_def path_resolve_def path_normalize_def normalizeString_def isAbsolute_def Let_def

lemma resolve_opt_ddb: "path_resolve ''/home/dev'' (path_normalize ''/opt/ddb'') = ''/opt/ddb''"
  by (simp add: path_eval)

lemma resolve_nowhere: "path_resolve ''/home/dev'' (path_normalize ''/nowhere'') = ''/nowhere''"
  by (simp add: path_eval)

lemma resolve_tmp_x: "path_resolve ''/home/dev'' (path_normalize ''/tmp/x'') = ''/tmp/x''"
  by (simp add: path_eval)

lemma join_opt_ddb:
  "join [''/opt/ddb'', ''DynamoDBLocal_lib''] = ''/opt/ddb/DynamoDBLocal_lib''"
  "join [''/opt/ddb'', ''DynamoDBLocal.jar''] = ''/opt/ddb/DynamoDBLocal.jar''"
  "join [''/opt/ddb'', ''DynamoDBLocal_db''] = ''/opt/ddb/DynamoDBLocal_db''"
  "join [''/opt/ddb'', ''LICENSE.txt''] = ''/opt/ddb/LICENSE.txt''"
  "join [''/opt/ddb'', ''README.txt''] = ''/opt/ddb/README.txt''"
  "join [''/opt/ddb'', ''THIRD-PARTY-LICENSES.txt''] = ''/opt/ddb/THIRD-PARTY-LICENSES.txt''"
  by (simp_all add: path_eval)

lemma find_demo: "find_ddb demo_world ''/opt/ddb''"
  by (simp add: find_ddb_def demo_world_def resolve_opt_ddb join_opt_ddb)


lemma parse_names:
  "parse_name ''/opt/ddb/DynamoDBLocal_lib'' = ''DynamoDBLocal_lib''"
  "parse_name ''/opt/ddb/DynamoDBLocal.jar'' = ''DynamoDBLocal''"
  by (simp_all add: parse_name_def basename_def Let_def)


lemma isInteger_evals:
  "isInteger (Num (Finite 3000))" "isInteger (Num (Finite 0))" "isInteger (Num (Finite (- 1)))"
  "\<not> isInteger (Num (Finite (6001 / 2)))" "\<not> isInteger (Str s)"
  by (simp_all add: isInteger_Ints del: isInteger.simps(1))


section \<open>Paths and number strings\<close>

lemma split_slash_nonempty: "split_slash s \<noteq> []"
  by (induction s) (auto split: list.splits)

lemma split_slash_append: "split_slash (a @ CHR ''/'' # b) = split_slash a @ split_slash b"
  by (induction a) (auto simp add: split_slash_nonempty split: list.splits)

lemma split_slash_plain: "CHR ''/'' \<notin> set s \<Longrightarrow> split_slash s = [s]"
  by (induction s) auto

lemma join_with_snoc:
  "join_with sep (xs @ [x]) = (if xs = [] then x else join_with sep xs @ sep @ x)"
  by (induction sep xs rule: join_with.induct) auto

lemma normalizeString_snoc:
  assumes "plain seg"
  shows "\<exists>pre. normalizeString (p @ CHR ''/'' # seg) allow = pre @ seg \<and> (pre = [] \<or> last pre = CHR ''/'')"
proof -
  let ?st = "foldl (norm_step allow) [] (split_slash p)"
  have "foldl (norm_step allow) [] (split_slash (p @ CHR ''/'' # seg)) = seg # ?st"
    using assms by (simp add: split_slash_append split_slash_plain plain_def)
  then have "normalizeString (p @ CHR ''/'' # seg) allow =
      (if ?st = [] then seg else join_with ''/'' (rev ?st) @ ''/'' @ seg)"
    by (simp add: normalizeString_def join_with_snoc)
  then show ?thesis
    by (cases "?st = []") (auto intro: exI [of _ "join_with ''/'' (rev ?st) @ ''/''"])
qed

lemma normalizeString_plain: "plain seg \<Longrightarrow> normalizeString seg allow = seg"
  by (simp add: normalizeString_def split_slash_plain plain_def)

lemma plain_last: "plain seg \<Longrightarrow> last seg \<noteq> CHR ''/''"
  by (metis last_in_set plain_def)

lemma plain_not_absolute: "plain seg \<Longrightarrow> \<not> isAbsolute seg"
  by (cases seg) (auto simp add: plain_def isAbsolute_def)

lemma join_plain:
  assumes "plain seg"
  shows "\<exists>pre. join [p, seg] = pre @ seg \<and> (pre = [] \<or> last pre = CHR ''/'')"
proof (cases "p = []")
  case True
  have "seg \<noteq> []" "last seg \<noteq> CHR ''/''" "\<not> isAbsolute seg"
    using assms by (auto simp add: plain_def plain_last plain_not_absolute)
  then have "join [p, seg] = seg"
    using True assms by (simp add: join_def path_normalize_def normalizeString_plain)
  then show ?thesis by simp
next
  case False
  obtain pre where pre: "normalizeString (p @ CHR ''/'' # seg) (\<not> isAbsolute p) = pre @ seg"
      "pre = [] \<or> last pre = CHR ''/''"
    using normalizeString_snoc [OF assms] by blast
  have seg: "seg \<noteq> []" "last seg \<noteq> CHR ''/''"
    using assms by (auto simp add: plain_def plain_last)
  have abs: "isAbsolute (p @ CHR ''/'' # seg) = isAbsolute p"
    using False by (simp add: isAbsolute_def split: list.splits)
  have "join [p, seg] = (if isAbsolute p then ''/'' else []) @ pre @ seg"
    using False seg pre(1) by (simp add: join_def path_normalize_def abs)
  then show ?thesis
    using pre(2) by (cases "isAbsolute p") (auto intro: exI [of _ "''/'' @ pre"])
qed

lemma path_resolve_absolute:
  "isAbsolute c \<Longrightarrow> \<exists>r. path_resolve c x = CHR ''/'' # r"
  by (cases c; cases x) (auto simp add: path_resolve_def isAbsolute_def Let_def)

lemma split_slash_no_slash: "s \<in> set (split_slash p) \<Longrightarrow> CHR ''/'' \<notin> set s"
  by (induction p arbitrary: s) (auto split: if_splits list.splits)

lemma norm_step_clean:
  "clean st \<Longrightarrow> CHR ''/'' \<notin> set seg \<Longrightarrow> clean (norm_step False st seg)"
  by (cases st) (auto simp add: clean_def plain_def)

lemma foldl_norm_clean:
  "clean st \<Longrightarrow> (\<And>s. s \<in> set xs \<Longrightarrow> CHR ''/'' \<notin> set s) \<Longrightarrow>
   clean (foldl (norm_step False) st xs)"
  by (induction xs arbitrary: st) (simp_all add: norm_step_clean del: norm_step.simps)

lemma foldl_norm_push:
  "clean xs \<Longrightarrow> foldl (norm_step a) st xs = rev xs @ st"
  by (induction xs arbitrary: st) (auto simp add: clean_def plain_def)

lemma split_join_clean:
  "clean xs \<Longrightarrow> xs \<noteq> [] \<Longrightarrow> split_slash (join_with ''/'' xs) = xs"
proof (induction xs)
  case Nil
  then show ?case by simp
next
  case (Cons x xs)
  show ?case
  proof (cases xs)
    case Nil
    then show ?thesis using Cons.prems by (simp add: clean_def plain_def split_slash_plain)
  next
    case (Cons y ys)
    have "split_slash (x @ CHR ''/'' # join_with ''/'' (y # ys)) =
        split_slash x @ split_slash (join_with ''/'' (y # ys))"
      by (rule split_slash_append)
    then show ?thesis
      using Cons Cons.IH Cons.prems by (simp add: clean_def plain_def split_slash_plain)
  qed
qed

text \<open>The path a manager holds, as \<open>path_resolve\<close> leaves it.\<close>

lemma path_resolve_form:
  assumes "isAbsolute c"
  shows "\<exists>segs. clean segs \<and> path_resolve c x = CHR ''/'' # join_with ''/'' segs"
proof -
  define rp where "rp =
    (if x = [] then (if c = [] then [] else c @ ''/'')
     else if isAbsolute x \<or> c = [] then x @ ''/'' else c @ ''/'' @ x @ ''/'')"
  have abs: "isAbsolute rp"
    using assms by (cases c; cases x) (auto simp add: rp_def isAbsolute_def)
  have "clean (foldl (norm_step False) [] (split_slash rp))"
    by (rule foldl_norm_clean) (auto simp add: clean_def split_slash_no_slash)
  then have "clean (rev (foldl (norm_step False) [] (split_slash rp)))"
    by (simp add: clean_def)
  moreover have "path_resolve c x =
      CHR ''/'' # join_with ''/'' (rev (foldl (norm_step False) [] (split_slash rp)))"
    using abs by (simp add: path_resolve_def rp_def [symmetric] normalizeString_def Let_def)
  ultimately show ?thesis by blast
qed

lemma join_with_nonempty: "clean segs \<Longrightarrow> segs \<noteq> [] \<Longrightarrow> join_with sep segs \<noteq> []"
  by (cases segs; cases "tl segs") (auto simp add: clean_def plain_def)

lemma join_clean:
  assumes "clean segs" "segs \<noteq> []" "plain seg"
  shows "join [CHR ''/'' # join_with ''/'' segs, seg] = CHR ''/'' # join_with ''/'' segs @ ''/'' @ seg"
proof -
  let ?J = "join_with ''/'' segs"
  have sp: "split_slash (CHR ''/'' # ?J @ CHR ''/'' # seg) = [] # segs @ [seg]"
    using assms split_slash_append [of ?J seg] by (simp add: split_join_clean split_slash_plain plain_def)
  have cl: "clean (segs @ [seg])"
    using assms by (simp add: clean_def)
  have empty: "norm_step False [] [] = []"
    by simp
  have "foldl (norm_step False) [] ([] # segs @ [seg]) = foldl (norm_step False) [] (segs @ [seg])"
    by (simp only: foldl_Cons empty)
  then have f: "foldl (norm_step False) [] ([] # segs @ [seg]) = rev (segs @ [seg])"
    using foldl_norm_push [OF cl, of False "[]"] by (simp only: append_Nil2)
  have "normalizeString (CHR ''/'' # ?J @ CHR ''/'' # seg) False =
      join_with ''/'' (rev (foldl (norm_step False) [] ([] # segs @ [seg])))"
    by (simp only: normalizeString_def sp)
  also have "\<dots> = join_with ''/'' (segs @ [seg])"
    by (simp only: f rev_rev_ident)
  also have "\<dots> = ?J @ ''/'' @ seg"
    using assms(2) by (simp add: join_with_snoc)
  finally have ns: "normalizeString (CHR ''/'' # ?J @ CHR ''/'' # seg) False = ?J @ ''/'' @ seg" .
  have "last (CHR ''/'' # ?J @ CHR ''/'' # seg) \<noteq> CHR ''/''"
    using assms(3) plain_last [of seg] by (simp add: plain_def)
  then show ?thesis
    using assms(3) ns by (simp add: join_def path_normalize_def isAbsolute_def plain_def)
qed

lemma join_root:
  assumes "plain seg"
  shows "join [''/'', seg] = CHR ''/'' # seg"
proof -
  have "split_slash (''/'' @ CHR ''/'' # seg) = [[], [], seg]"
    using assms by (simp add: split_slash_plain plain_def)
  then have "normalizeString (CHR ''/'' # CHR ''/'' # seg) False = seg"
    using assms by (simp add: normalizeString_def plain_def)
  moreover have "last (CHR ''/'' # CHR ''/'' # seg) \<noteq> CHR ''/''"
    using assms plain_last [of seg] by (simp add: plain_def)
  ultimately show ?thesis
    using assms by (simp add: join_def path_normalize_def isAbsolute_def plain_def)
qed

lemma join_install_path:
  assumes "isAbsolute (cwd w)" "plain seg"
  shows "join [path (new_manager w p v), seg] =
     (if path (new_manager w p v) = ''/'' then ''/'' @ seg else path (new_manager w p v) @ ''/'' @ seg)"
proof -
  obtain segs where segs: "clean segs"
      "path (new_manager w p v) = CHR ''/'' # join_with ''/'' segs"
    using path_resolve_form [OF assms(1), of "path_normalize p"] by (auto simp add: new_manager_def)
  show ?thesis
  proof (cases "segs = []")
    case True
    then show ?thesis using segs join_root [OF assms(2)] by simp
  next
    case False
    have "join_with ''/'' segs \<noteq> []"
      using segs(1) False by (rule join_with_nonempty)
    then show ?thesis
      using segs False join_clean [OF segs(1) False assms(2)] by simp
  qed
qed

lemma basename_join:
  assumes "plain seg"
  shows "basename (join [p, seg]) = seg"
proof -
  obtain pre where pre: "join [p, seg] = pre @ seg" "pre = [] \<or> last pre = CHR ''/''"
    using join_plain [OF assms] by blast
  have seg: "seg \<noteq> []" "CHR ''/'' \<notin> set seg"
    using assms by (simp_all add: plain_def)
  obtain ys y where ys: "seg = ys @ [y]"
    using seg(1) by (cases seg rule: rev_cases) auto
  then have r: "rev seg = y # rev ys" "y \<noteq> CHR ''/''"
    using seg(2) by auto
  have stop: "takeWhile (\<lambda>c. c \<noteq> CHR ''/'') (rev pre) = []"
    using pre(2) by (cases pre rule: rev_cases) auto
  have "takeWhile (\<lambda>c. c \<noteq> CHR ''/'') (rev seg @ rev pre) =
      rev seg @ takeWhile (\<lambda>c. c \<noteq> CHR ''/'') (rev pre)"
    by (rule takeWhile_append2) (use seg(2) in auto)
  then have tk: "takeWhile (\<lambda>c. c \<noteq> CHR ''/'') (rev seg @ rev pre) = rev seg"
    by (simp only: stop append_Nil2)
  have dr: "dropWhile (\<lambda>c. c = CHR ''/'') (rev seg @ rev pre) = rev seg @ rev pre"
    using r by simp
  have "basename (pre @ seg) =
      rev (takeWhile (\<lambda>c. c \<noteq> CHR ''/'') (dropWhile (\<lambda>c. c = CHR ''/'') (rev seg @ rev pre)))"
    by (simp only: basename_def rev_append)
  also have "\<dots> = seg"
    by (simp only: dr tk rev_rev_ident)
  finally show ?thesis
    by (simp only: pre(1))
qed

lemma parse_name_join:
  "parse_name (join [p, ''DynamoDBLocal_lib'']) = ''DynamoDBLocal_lib''"
  "parse_name (join [p, ''DynamoDBLocal.jar'']) = ''DynamoDBLocal''"
  "parse_name (join [p, ''LICENSE.txt'']) = ''LICENSE''"
  "parse_name (join [p, ''README.txt'']) = ''README''"
  "parse_name (join [p, ''THIRD-PARTY-LICENSES.txt'']) = ''THIRD-PARTY-LICENSES''"
  by (simp_all add: parse_name_def basename_join plain_def Let_def)

lemma digit_in: "digit d \<in> set ''0123456789''"
  unfolding digit_def by (rule nth_mem) simp

lemma decimal_shape: "\<exists>c cs. decimal n = c # cs \<and> c \<in> set ''0123456789''"
proof (induction n rule: decimal.induct)
  case (1 n)
  show ?case
  proof (cases "n < 10")
    case True
    then have "decimal n = [digit n]" by (simp add: decimal.simps)
    then show ?thesis using digit_in by blast
  next
    case False
    then obtain c cs where "decimal (n div 10) = c # cs" "c \<in> set ''0123456789''"
      using "1.IH" by blast
    moreover have "decimal n = decimal (n div 10) @ [digit (n mod 10)]"
      using False by (subst decimal.simps) simp
    ultimately show ?thesis by simp
  qed
qed

lemma exponent_form_shape: "\<exists>c cs. exponent_form se = c # cs \<and> c \<in> set ''0123456789''"
proof -
  obtain c cs where "decimal (fst se) = c # cs" "c \<in> set ''0123456789''"
    using decimal_shape by blast
  then show ?thesis by (simp add: exponent_form_def Let_def)
qed

lemma String_integer_shape:
  "\<exists>c cs. c \<in> set ''0123456789'' \<and>
     (String_integer sh i = c # cs \<or> String_integer sh i = CHR ''-'' # c # cs)"
proof -
  obtain c cs where a: "decimal (nat \<bar>i\<bar>) = c # cs" "c \<in> set ''0123456789''"
    using decimal_shape by blast
  obtain d ds where b: "exponent_form (sh (nat \<bar>i\<bar>)) = d # ds" "d \<in> set ''0123456789''"
    using exponent_form_shape by blast
  show ?thesis
    using a b unfolding String_integer_def by (cases "i < 0"; cases "\<bar>i\<bar> < 10 ^ 21") auto
qed

lemma port_string_not_flag:
  assumes "isInteger v" "c \<notin> set ''0123456789''"
  shows "String_js sh v \<noteq> CHR ''-'' # c # cs"
proof -
  obtain r where v: "v = Num (Finite r)"
    using assms(1) by (cases v rule: isInteger.cases) auto
  obtain d ds where d: "d \<in> set ''0123456789''"
      "String_integer sh \<lfloor>r\<rfloor> = d # ds \<or> String_integer sh \<lfloor>r\<rfloor> = CHR ''-'' # d # ds"
    using String_integer_shape by blast
  show ?thesis
    using d assms(2) by (auto simp add: v)
qed

lemma join_plain_last: "plain seg \<Longrightarrow> last (join [p, seg]) = last seg"
  using join_plain [of seg p] by (auto simp add: plain_def)

lemma plain_names:
  "plain ''DynamoDBLocal.jar''" "plain ''DynamoDBLocal_db''" "plain ''DynamoDBLocal_lib''"
  by (simp_all add: plain_def)

lemma join_not_flag:
  "join [p, ''DynamoDBLocal.jar''] \<noteq> ''-cors''"
  "join [p, ''DynamoDBLocal_db''] \<noteq> ''-cors''"
  "join [p, ''DynamoDBLocal.jar''] \<noteq> ''-optimizeDbBeforeStartup''"
  "join [p, ''DynamoDBLocal_db''] \<noteq> ''-optimizeDbBeforeStartup''"
  using join_plain_last [of "''DynamoDBLocal.jar''" p] join_plain_last [of "''DynamoDBLocal_db''" p]
  by (auto simp add: plain_names)

lemma flag_args_members:
  "set (flag_args opts) \<subseteq> {''-delayTransientStatuses'', ''-sharedDb''}"
  by (auto simp add: flag_args_def)

lemma base_args_no_flag:
  "''-cors'' \<notin> set (base_args m)" "''-optimizeDbBeforeStartup'' \<notin> set (base_args m)"
  using join_not_flag [of "path m"] by (auto simp add: base_args_def)

lemma port_args_no_flag:
  assumes "port opts = Undefined \<or> isInteger (port opts)"
  shows "''-cors'' \<notin> set (port_args w opts)" "''-optimizeDbBeforeStartup'' \<notin> set (port_args w opts)"
  using assms port_string_not_flag [of "port opts" "CHR ''c''" "shortest w" "''ors''"]
    port_string_not_flag [of "port opts" "CHR ''o''" "shortest w" "''ptimizeDbBeforeStartup''"]
  by (auto simp add: port_args_def)

lemma storage_args_no_cors:
  assumes "isAbsolute (cwd w)"
  shows "''-cors'' \<notin> set (storage_args w m opts)"
  using path_resolve_absolute [OF assms, of "path_normalize (the_Str (dbPath opts))"]
    join_not_flag [of "path m"]
  by (auto simp add: storage_args_def)

lemma cors_update_parts:
  "port_args w (opts\<lparr>cors := v\<rparr>) = port_args w opts"
  "storage_args w m (opts\<lparr>cors := v\<rparr>) = storage_args w m opts"
  "flag_args (opts\<lparr>cors := v\<rparr>) = flag_args opts"
  "mkdirs w m (opts\<lparr>cors := v\<rparr>) = mkdirs w m opts"
  "cors_args (opts\<lparr>cors := Undefined\<rparr>) = []"
  by (simp_all add: port_args_def storage_args_def flag_args_def mkdirs_def given_dbPath_def
      default_dbPath_def cors_args_def cors_valid_def)

lemma flag_args_no_cors: "''-cors'' \<notin> set (flag_args opts)"
  by (simp add: flag_args_def)

section \<open>The argument builder\<close>

text \<open>
  Claim C1. When \<open>inMemory\<close> is \<open>true\<close> and \<open>dbPath\<close> is a non-empty string,
  \<open>#generateArgs\<close> throws an error named \<open>config error\<close> and returns no list. Its
  only effect is the console line of that error in verbose mode: no \<open>mkdir\<close> is
  issued, for \<open>dbPath\<close> or for anything else.
\<close>

theorem inMemory_dbPath_conflict:
  "inMemory opts = Bool True \<Longrightarrow> dbPath opts = Str s \<Longrightarrow> s \<noteq> [] \<Longrightarrow>
   (\<exists>e. generateArgs w m opts = (Inl e, logged (verbose m) e) \<and> name e = ''config error'') \<and>
   (\<forall>p. Mkdir p \<notin> set (snd (generateArgs w m opts)))"
  by (auto simp add: generateArgs_cases logged_def port_error_def conflict_error_def)

theorem inMemory_dbPath_conflict_witness:
  "generateArgs demo_world lib_manager (no_options\<lparr>inMemory := Bool True, dbPath := Str ''/tmp/x''\<rparr>) =
     (Inl conflict_error, [])"
  using inMemory_dbPath_conflict
    [of "no_options\<lparr>inMemory := Bool True, dbPath := Str ''/tmp/x''\<rparr>" "''/tmp/x''" demo_world lib_manager]
  by (simp add: no_options_def generateArgs_cases logged_def lib_manager_def)




text \<open>
  Claim C4, as amended. With \<open>inMemory\<close> unset and a port that passes its check, a
  list is built. For a non-empty string \<open>dbPath\<close> it has \<open>-dbPath\<close>, the resolved
  normalized path and \<open>-optimizeDbBeforeStartup\<close> in a row, and the one effect is a
  recursive \<open>mkdir\<close> of that path. For \<open>dbPath\<close> unset it has \<open>-dbPath\<close> and
  \<open>join(path, 'DynamoDBLocal_db')\<close> in a row after a \<open>mkdir\<close> of that directory,
  and \<open>-optimizeDbBeforeStartup\<close> can be in it only as the joined CORS value. The
  outcome of \<open>mkdir\<close> changes nothing: a failure is swallowed. For the path a
  constructor leaves in a manager, that \<open>join\<close> is the path, a slash and
  \<open>DynamoDBLocal_db\<close> (no second slash under the root).
\<close>

theorem dbPath_args:
  assumes "inMemory opts = Undefined" and "port opts = Undefined \<or> isInteger (port opts)"
  shows
    "(\<forall>s. dbPath opts = Str s \<and> s \<noteq> [] \<longrightarrow>
        (\<exists>args. generateArgs w m opts =
                  (Inr args, [Mkdir (path_resolve (cwd w) (path_normalize s))]) \<and>
                sublist [''-dbPath'', path_resolve (cwd w) (path_normalize s),
                         ''-optimizeDbBeforeStartup''] args)) \<and>
     (dbPath opts = Undefined \<longrightarrow>
        (\<exists>args. generateArgs w m opts = (Inr args, [Mkdir (join [path m, ''DynamoDBLocal_db''])]) \<and>
                sublist [''-dbPath'', join [path m, ''DynamoDBLocal_db'']] args \<and>
                (''-optimizeDbBeforeStartup'' \<in> set args \<longrightarrow>
                   cors_valid (cors opts) \<and>
                   join_with '', '' (map the_Str (elems (cors opts))) = ''-optimizeDbBeforeStartup''))) \<and>
     generateArgs (w\<lparr>mkdir := outcome\<rparr>) m opts = generateArgs w m opts \<and>
     (isAbsolute (cwd w) \<longrightarrow>
        join [path (new_manager w p v), ''DynamoDBLocal_db''] =
          (if path (new_manager w p v) = ''/'' then ''/DynamoDBLocal_db''
           else path (new_manager w p v) @ ''/DynamoDBLocal_db''))"
proof (intro conjI allI impI)
  fix s assume s: "dbPath opts = Str s \<and> s \<noteq> []"
  let ?P = "path_resolve (cwd w) (path_normalize s)"
  let ?args = "base_args m @ cors_args opts @ port_args w opts @ storage_args w m opts @ flag_args opts"
  have st: "storage_args w m opts = [''-dbPath'', ?P, ''-optimizeDbBeforeStartup'']"
    using s assms(1) by (simp add: storage_args_def given_dbPath_def default_dbPath_def)
  have "sublist [''-dbPath'', ?P, ''-optimizeDbBeforeStartup''] ?args"
    unfolding sublist_def st
    by (intro exI [of _ "base_args m @ cors_args opts @ port_args w opts"] exI [of _ "flag_args opts"])
      simp
  moreover have "generateArgs w m opts = (Inr ?args, [Mkdir ?P])"
    using s assms by (auto simp add: generateArgs_cases mkdirs_def given_dbPath_def default_dbPath_def)
  ultimately show "\<exists>args. generateArgs w m opts = (Inr args, [Mkdir ?P]) \<and>
      sublist [''-dbPath'', ?P, ''-optimizeDbBeforeStartup''] args"
    by blast
next
  assume u: "dbPath opts = Undefined"
  let ?D = "join [path m, ''DynamoDBLocal_db'']"
  let ?args = "base_args m @ cors_args opts @ port_args w opts @ storage_args w m opts @ flag_args opts"
  have st: "storage_args w m opts = [''-dbPath'', ?D]"
    using u assms(1) by (simp add: storage_args_def given_dbPath_def default_dbPath_def)
  have sub: "sublist [''-dbPath'', ?D] ?args"
    unfolding sublist_def st
    by (intro exI [of _ "base_args m @ cors_args opts @ port_args w opts"] exI [of _ "flag_args opts"])
      simp
  have run: "generateArgs w m opts = (Inr ?args, [Mkdir ?D])"
    using u assms by (auto simp add: generateArgs_cases mkdirs_def given_dbPath_def default_dbPath_def)
  have "cors_valid (cors opts) \<and>
        join_with '', '' (map the_Str (elems (cors opts))) = ''-optimizeDbBeforeStartup''"
    if "''-optimizeDbBeforeStartup'' \<in> set ?args"
  proof -
    have "''-optimizeDbBeforeStartup'' \<in> set (cors_args opts)"
      using that base_args_no_flag(2) [of m] port_args_no_flag(2) [OF assms(2), of w]
        flag_args_members [of opts] join_not_flag(4) [of "path m"]
      by (auto simp add: st)
    then show ?thesis
      by (auto simp add: cors_args_def split: if_splits)
  qed
  with sub run show "\<exists>args. generateArgs w m opts = (Inr args, [Mkdir ?D]) \<and>
      sublist [''-dbPath'', ?D] args \<and>
      (''-optimizeDbBeforeStartup'' \<in> set args \<longrightarrow>
         cors_valid (cors opts) \<and>
         join_with '', '' (map the_Str (elems (cors opts))) = ''-optimizeDbBeforeStartup'')"
    by blast
next
  show "generateArgs (w\<lparr>mkdir := outcome\<rparr>) m opts = generateArgs w m opts"
    by (simp add: generateArgs_def)
next
  assume "isAbsolute (cwd w)"
  then show "join [path (new_manager w p v), ''DynamoDBLocal_db''] =
      (if path (new_manager w p v) = ''/'' then ''/DynamoDBLocal_db''
       else path (new_manager w p v) @ ''/DynamoDBLocal_db'')"
    using join_install_path [of w "''DynamoDBLocal_db''" p v] by (simp add: plain_names)
qed

theorem dbPath_args_witness:
  "generateArgs demo_world lib_manager (no_options\<lparr>dbPath := Str ''/tmp/x''\<rparr>) =
     (Inr [''-Djava.library.path=/opt/ddb/DynamoDBLocal_lib'', ''-jar'', ''/opt/ddb/DynamoDBLocal.jar'',
           ''-dbPath'', ''/tmp/x'', ''-optimizeDbBeforeStartup''],
      [Mkdir ''/tmp/x'']) \<and>
   generateArgs demo_world lib_manager no_options =
     (Inr [''-Djava.library.path=/opt/ddb/DynamoDBLocal_lib'', ''-jar'', ''/opt/ddb/DynamoDBLocal.jar'',
           ''-dbPath'', ''/opt/ddb/DynamoDBLocal_db''],
      [Mkdir ''/opt/ddb/DynamoDBLocal_db''])"
  using dbPath_args [of "no_options\<lparr>dbPath := Str ''/tmp/x''\<rparr>" demo_world lib_manager]
    dbPath_args [of no_options demo_world lib_manager]
  by (simp add: generateArgs_cases no_options_def lib_manager_def
      base_args_def cors_args_def cors_valid_def port_args_def storage_args_def flag_args_def
      mkdirs_def given_dbPath_def default_dbPath_def join_opt_ddb demo_world_def resolve_tmp_x)

text \<open>
  Claim C4 as stated fails twice. Where \<open>mkdir\<close> is refused the list is returned all
  the same and the directory has not been created; and with no \<open>dbPath\<close> the string
  \<open>-optimizeDbBeforeStartup\<close> is in the list when it is the CORS value.
\<close>

theorem dbPath_args_counterexample:
  "mkdir denied_world ''/tmp/x'' = Some eacces \<and>
   generateArgs denied_world lib_manager (no_options\<lparr>dbPath := Str ''/tmp/x''\<rparr>) =
     (Inr [''-Djava.library.path=/opt/ddb/DynamoDBLocal_lib'', ''-jar'', ''/opt/ddb/DynamoDBLocal.jar'',
           ''-dbPath'', ''/tmp/x'', ''-optimizeDbBeforeStartup''],
      [Mkdir ''/tmp/x'']) \<and>
   generateArgs demo_world lib_manager (no_options\<lparr>cors := Arr [Str ''-optimizeDbBeforeStartup'']\<rparr>) =
     (Inr [''-Djava.library.path=/opt/ddb/DynamoDBLocal_lib'', ''-jar'', ''/opt/ddb/DynamoDBLocal.jar'',
           ''-cors'', ''-optimizeDbBeforeStartup'', ''-dbPath'', ''/opt/ddb/DynamoDBLocal_db''],
      [Mkdir ''/opt/ddb/DynamoDBLocal_db''])"
  by (simp add: generateArgs_cases no_options_def lib_manager_def denied_world_def
      base_args_def cors_args_def cors_valid_def port_args_def storage_args_def flag_args_def
      mkdirs_def given_dbPath_def default_dbPath_def join_opt_ddb demo_world_def resolve_tmp_x)

text \<open>
  Claim C10, as amended. A \<open>cors\<close> that is absent, not an array, empty, or holds an
  element that is not a string, is ignored: the call does exactly what it does without
  \<open>cors\<close>, so it succeeds whenever the port and the \<open>inMemory\<close>/\<open>dbPath\<close> checks
  pass, and no list it builds has a \<open>-cors\<close> entry. A non-empty array of strings puts
  \<open>-cors\<close> and the strings joined by comma and space into every list built. The
  working directory is absolute, as \<open>process.cwd()\<close> is.
\<close>

theorem cors_ignored:
  assumes "isAbsolute (cwd w)"
  shows
    "(cors opts = Undefined \<or> \<not> isArray (cors opts) \<or> cors opts = Arr [] \<or>
      (\<exists>xs. cors opts = Arr xs \<and> \<not> list_all isString xs) \<longrightarrow>
        generateArgs w m opts = generateArgs w m (opts\<lparr>cors := Undefined\<rparr>) \<and>
        ((port opts = Undefined \<or> isInteger (port opts)) \<and>
         \<not> (truthy (inMemory opts) \<and> truthy (dbPath opts)) \<longrightarrow>
           (\<exists>args. fst (generateArgs w m opts) = Inr args)) \<and>
        (\<forall>args. fst (generateArgs w m opts) = Inr args \<longrightarrow> ''-cors'' \<notin> set args)) \<and>
     (\<forall>xs. cors opts = Arr xs \<and> xs \<noteq> [] \<and> list_all isString xs \<longrightarrow>
        (\<forall>args. fst (generateArgs w m opts) = Inr args \<longrightarrow>
           sublist [''-cors'', join_with '', '' (map the_Str xs)] args))"
proof (intro conjI allI impI)
  assume inv: "cors opts = Undefined \<or> \<not> isArray (cors opts) \<or> cors opts = Arr [] \<or>
      (\<exists>xs. cors opts = Arr xs \<and> \<not> list_all isString xs)"
  then have nv: "\<not> cors_valid (cors opts)"
    by (auto simp add: cors_valid_def)
  then have none: "cors_args opts = []"
    by (simp add: cors_args_def)
  show "generateArgs w m opts = generateArgs w m (opts\<lparr>cors := Undefined\<rparr>)"
    by (simp add: generateArgs_cases cors_update_parts none)
  show "\<exists>args. fst (generateArgs w m opts) = Inr args"
    if "(port opts = Undefined \<or> isInteger (port opts)) \<and>
        \<not> (truthy (inMemory opts) \<and> truthy (dbPath opts))"
    using that by (auto simp add: generateArgs_cases)
  fix args assume ok: "fst (generateArgs w m opts) = Inr args"
  then have port: "port opts = Undefined \<or> isInteger (port opts)"
    by (auto simp add: generateArgs_cases split: if_splits)
  have "args = base_args m @ port_args w opts @ storage_args w m opts @ flag_args opts"
    using generateArgs_Inr [OF ok] none by simp
  then show "''-cors'' \<notin> set args"
    using base_args_no_flag(1) [of m] port_args_no_flag(1) [OF port, of w]
      storage_args_no_cors [OF assms, of m opts] flag_args_no_cors [of opts]
    by simp
next
  fix xs args
  assume v: "cors opts = Arr xs \<and> xs \<noteq> [] \<and> list_all isString xs"
    and ok: "fst (generateArgs w m opts) = Inr args"
  have "cors_args opts = [''-cors'', join_with '', '' (map the_Str xs)]"
    using v by (simp add: cors_args_def cors_valid_def)
  then show "sublist [''-cors'', join_with '', '' (map the_Str xs)] args"
    unfolding sublist_def generateArgs_Inr [OF ok]
    by (intro exI [of _ "base_args m"]
          exI [of _ "port_args w opts @ storage_args w m opts @ flag_args opts"]) simp
qed

theorem cors_ignored_witness:
  "generateArgs demo_world lib_manager (no_options\<lparr>cors := Arr [Str ''a.com'', Num (Finite 1)]\<rparr>) =
     (Inr [''-Djava.library.path=/opt/ddb/DynamoDBLocal_lib'', ''-jar'', ''/opt/ddb/DynamoDBLocal.jar'',
           ''-dbPath'', ''/opt/ddb/DynamoDBLocal_db''],
      [Mkdir ''/opt/ddb/DynamoDBLocal_db'']) \<and>
   generateArgs demo_world lib_manager (no_options\<lparr>cors := Arr [Str ''a.com'', Str ''b.com'']\<rparr>) =
     (Inr [''-Djava.library.path=/opt/ddb/DynamoDBLocal_lib'', ''-jar'', ''/opt/ddb/DynamoDBLocal.jar'',
           ''-cors'', ''a.com, b.com'', ''-dbPath'', ''/opt/ddb/DynamoDBLocal_db''],
      [Mkdir ''/opt/ddb/DynamoDBLocal_db''])"
  using cors_ignored [of demo_world "no_options\<lparr>cors := Arr [Str ''a.com'', Num (Finite 1)]\<rparr>" lib_manager]
    cors_ignored [of demo_world "no_options\<lparr>cors := Arr [Str ''a.com'', Str ''b.com'']\<rparr>" lib_manager]
  by (simp add: generateArgs_cases no_options_def lib_manager_def
      base_args_def cors_args_def cors_valid_def port_args_def storage_args_def flag_args_def
      mkdirs_def given_dbPath_def default_dbPath_def join_opt_ddb demo_world_def)

text \<open>
  Claim C10 as stated fails: an empty \<open>cors\<close> does not make the call succeed when the
  port is not an integer.
\<close>

theorem cors_ignored_counterexample:
  "generateArgs demo_world lib_manager (no_options\<lparr>cors := Arr [], port := Num (Finite (6001 / 2))\<rparr>) =
     (Inl port_error, [])"
  by (simp add: generateArgs_cases isInteger_evals no_options_def logged_def lib_manager_def
      del: isInteger.simps)

section \<open>The installation locator\<close>

text \<open>
  Claim C5. \<open>#find\<close> is true exactly when the resolved path lists a file named
  \<open>DynamoDBLocal.jar\<close> and a directory named \<open>DynamoDBLocal_lib\<close>, and the listing
  of that directory holds every name of the manifest, in any order and among any other
  names. A \<open>readdir\<close> that fails, on either directory, gives false: the right-hand side
  needs both listings.
\<close>

theorem find_iff:
  "find_ddb w p =
     (\<exists>files libFiles.
        readdir w (path_resolve (cwd w) (path_normalize p)) = Inr files \<and>
        (\<exists>f \<in> set files. d_name f = ''DynamoDBLocal.jar'' \<and> isFile f) \<and>
        (\<exists>f \<in> set files. d_name f = ''DynamoDBLocal_lib'' \<and> isDirectory f) \<and>
        readdir w (join [path_resolve (cwd w) (path_normalize p), ''DynamoDBLocal_lib'']) = Inr libFiles \<and>
        set (libIndex w) \<subseteq> d_name ` set libFiles)"
  by (auto simp add: find_ddb_def Let_def list_ex_iff list_all_iff split: sum.splits)

theorem find_iff_witness:
  "find_ddb demo_world ''/opt/ddb'' \<and> \<not> find_ddb demo_world ''/nowhere'' \<and>
   \<not> find_ddb (demo_world\<lparr>libIndex := [''sqlite4java.jar'', ''missing.so'']\<rparr>) ''/opt/ddb''"
  using find_iff [of demo_world "''/opt/ddb''"]
  by (simp add: find_ddb_def demo_world_def resolve_opt_ddb resolve_nowhere join_opt_ddb)

section \<open>Uninstall\<close>

text \<open>
  On an installed path other than the default one, \<open>uninstall\<close> fails exactly when
  the removal of \<open>DynamoDBLocal_lib\<close> fails. What happens to the jar does not enter:
  its recorded name is \<open>DynamoDBLocal\<close>.
\<close>

lemma uninstall_fails_iff:
  assumes "find_ddb w (path m)" "path m \<noteq> defaultPath w"
  shows "(\<exists>e. fst (uninstall w m) = Inl e) = (rm w (join [path m, ''DynamoDBLocal_lib'']) \<noteq> None)"
  using assms by (auto simp add: uninstall_def Let_def parse_name_join DynamoDBLocalError_def)

text \<open>
  Claim C8, at the input where the code departs from it. On an installed, non-default
  path where only the removal of \<open>DynamoDBLocal.jar\<close> fails, \<open>uninstall\<close> succeeds:
  the failed entry is recorded by \<open>parse(file).name\<close>, which is \<open>DynamoDBLocal\<close>,
  and the test for a required entry looks for \<open>DynamoDBLocal.jar\<close>. The verbose
  variant reports the jar in the warning meant for auxiliary files.
\<close>

theorem uninstall_jar_not_removed:
  "find_ddb jar_stuck_world (path lib_manager) \<and>
   path lib_manager \<noteq> defaultPath jar_stuck_world \<and>
   rm jar_stuck_world ''/opt/ddb/DynamoDBLocal.jar'' = Some eacces \<and>
   uninstall jar_stuck_world lib_manager =
     (Inr (),
      [Rm ''/opt/ddb/DynamoDBLocal_lib'', Rm ''/opt/ddb/DynamoDBLocal.jar'', Rm ''/opt/ddb/LICENSE.txt'',
       Rm ''/opt/ddb/README.txt'', Rm ''/opt/ddb/THIRD-PARTY-LICENSES.txt'']) \<and>
   uninstall jar_stuck_world cli_manager =
     (Inr (),
      [Rm ''/opt/ddb/DynamoDBLocal_lib'', Rm ''/opt/ddb/DynamoDBLocal.jar'', Rm ''/opt/ddb/LICENSE.txt'',
       Rm ''/opt/ddb/README.txt'', Rm ''/opt/ddb/THIRD-PARTY-LICENSES.txt'',
       Log_warning
         ''DynamoDB was successfully uninstalled but the following files were not removed: [DynamoDBLocal]''])"
proof -
  have installed: "find_ddb jar_stuck_world ''/opt/ddb''"
    by (simp add: find_ddb_def jar_stuck_world_def demo_world_def resolve_opt_ddb join_opt_ddb)
  have dflt: "defaultPath jar_stuck_world = ''/app/dynamodb''"
    by (simp add: defaultPath_def jar_stuck_world_def demo_world_def path_eval)
  have removal: "rm jar_stuck_world =
      (\<lambda>p. if p = ''/opt/ddb/DynamoDBLocal.jar'' then Some eacces else None)"
    by (simp add: jar_stuck_world_def)
  show ?thesis
    using installed
    by (simp add: uninstall_def dflt removal lib_manager_def cli_manager_def join_opt_ddb
        parse_names Let_def)
qed

section \<open>The archive fetcher\<close>

text \<open>
  Claim C9. A response without a \<open>content-length\<close> header makes the download reject
  with the error "Unable to determine response size"; the destination is not created
  and the extraction is not started. Conversely the extraction starts only for a
  response that carries a non-empty \<open>content-length\<close>.
\<close>

theorem size_unknown:
  "(content_length res = None \<longrightarrow>
      on_response w dest v res =
        (Inl \<lparr>name = ''error'', message = ''Unable to determine response size''\<rparr>,
         if v then [Log_error ''error'' ''Unable to determine response size'', Stdout ''\<newline>'',
                    Log_error ''error'' ''Unable to determine response size'']
         else []) \<and>
      (network w = Response res \<longrightarrow> downloadDynamoDB w dest v = on_response w dest v res)) \<and>
   (Extract d \<in> set (snd (on_response w dest v res)) \<longrightarrow>
      (\<exists>len. content_length res = Some len \<and> len \<noteq> []))"
  by (auto simp add: on_response_def downloadDynamoDB_def DynamoDBLocalError_def Let_def
      split: option.splits body.splits if_splits)

theorem size_unknown_witness:
  "on_response demo_world ''/opt/ddb'' False \<lparr>content_length = None, chunks = [512], body = Complete\<rparr> =
     (Inl \<lparr>name = ''error'', message = ''Unable to determine response size''\<rparr>, []) \<and>
   on_response demo_world ''/opt/ddb'' False
       \<lparr>content_length = Some ''512'', chunks = [512], body = Complete\<rparr> =
     (Inr (), [Mkdir ''/opt/ddb'', Extract ''/opt/ddb''])"
  using size_unknown [of "\<lparr>content_length = None, chunks = [512], body = Complete\<rparr>"
      demo_world "''/opt/ddb''" False "''/opt/ddb''"]
  by (simp add: on_response_def demo_world_def)

section \<open>The process supervisor\<close>

text \<open>
  Claim C2. A \<open>start\<close> on a manager that already holds a child-process handle is
  rejected with the error that carries the process id of that child. The manager comes
  back as it was, handle included, and the only effect is the console line of the error
  in verbose mode: nothing is spawned, nothing is killed.
\<close>

theorem start_already_running:
  "dynamodb m = Some c \<Longrightarrow>
   start w m args =
     (Rejects \<lparr>name = ''error'',
        message = ''DynamoDB process is already running with pid: '' @ underline (String_pid c)\<rparr>,
      m,
      if verbose m
      then [Log_error ''error''
              (''DynamoDB process is already running with pid: '' @ underline (String_pid c))]
      else [])"
  by (simp add: start_def DynamoDBLocalError_def)

theorem start_already_running_witness:
  "start demo_world lib_manager None =
     (Pending, lib_manager\<lparr>dynamodb := Some demo_child\<rparr>,
      [Mkdir ''/opt/ddb/DynamoDBLocal_db'',
       Spawn ''java''
         [''-Djava.library.path=/opt/ddb/DynamoDBLocal_lib'', ''-jar'', ''/opt/ddb/DynamoDBLocal.jar'',
          ''-dbPath'', ''/opt/ddb/DynamoDBLocal_db'']]) \<and>
   start demo_world (lib_manager\<lparr>dynamodb := Some demo_child\<rparr>) None =
     (Rejects \<lparr>name = ''error'',
        message = ''DynamoDB process is already running with pid: '' @ UNDERLINE @ ''4242'' @ RESET\<rparr>,
      lib_manager\<lparr>dynamodb := Some demo_child\<rparr>, [])"
proof -
  have installed: "find_ddb demo_world (path lib_manager)"
    using find_demo by (simp add: lib_manager_def)
  have spawn: "spawned demo_world = demo_child"
    by (simp add: demo_world_def)
  have "generateArgs demo_world lib_manager no_options =
      (Inr [''-Djava.library.path=/opt/ddb/DynamoDBLocal_lib'', ''-jar'', ''/opt/ddb/DynamoDBLocal.jar'',
            ''-dbPath'', ''/opt/ddb/DynamoDBLocal_db''],
       [Mkdir ''/opt/ddb/DynamoDBLocal_db''])"
    by (simp add: generateArgs_cases no_options_def lib_manager_def base_args_def cors_args_def
        cors_valid_def port_args_def storage_args_def flag_args_def mkdirs_def given_dbPath_def
        default_dbPath_def join_opt_ddb)
  then have first: "start demo_world lib_manager None =
      (Pending, lib_manager\<lparr>dynamodb := Some demo_child\<rparr>,
       [Mkdir ''/opt/ddb/DynamoDBLocal_db'',
        Spawn ''java''
          [''-Djava.library.path=/opt/ddb/DynamoDBLocal_lib'', ''-jar'', ''/opt/ddb/DynamoDBLocal.jar'',
           ''-dbPath'', ''/opt/ddb/DynamoDBLocal_db'']])"
    using installed by (simp add: start_def launch_def spawn lib_manager_def)
  show ?thesis
    using first
      start_already_running [of "lib_manager\<lparr>dynamodb := Some demo_child\<rparr>" demo_child demo_world None]
    by (simp add: demo_child_def String_pid_def decimal_4242 underline_def print_def)
      (simp add: lib_manager_def)
qed

text \<open>
  Claim C6, as amended. On a manager that holds no child-process handle, \<open>stop\<close>
  returns a rejected promise carrying the "not running" error in both variants, and
  throws nothing. The verbose variant differs only in that the error is also printed,
  through \<open>log.error\<close>; it does not resolve.
\<close>

theorem stop_not_running:
  "dynamodb m = None \<Longrightarrow>
   stop m =
     (Rejected_promise \<lparr>name = ''error'',
        message = ''Requested DynamoDB process not killed because it was not running''\<rparr>,
      m,
      if verbose m
      then [Log_error ''error'' ''Requested DynamoDB process not killed because it was not running'']
      else [])"
  by (simp add: stop_def DynamoDBLocalError_def)

theorem stop_not_running_witness:
  "stop lib_manager =
     (Rejected_promise \<lparr>name = ''error'',
        message = ''Requested DynamoDB process not killed because it was not running''\<rparr>,
      lib_manager, [])"
  using stop_not_running [of lib_manager] by (simp add: lib_manager_def)

text \<open>
  Claim C6 as stated fails for the verbose variant: with no handle, \<open>stop\<close> on the
  CLI manager hands back a rejected promise, and what it prints is an error.
\<close>

theorem stop_cli_counterexample:
  "verbose cli_manager \<and> dynamodb cli_manager = None \<and>
   fst (stop cli_manager) =
     Rejected_promise \<lparr>name = ''error'',
       message = ''Requested DynamoDB process not killed because it was not running''\<rparr> \<and>
   fst (stop cli_manager) \<noteq> Returns_undefined \<and>
   snd (snd (stop cli_manager)) =
     [Log_error ''error'' ''Requested DynamoDB process not killed because it was not running'']"
  by (simp add: stop_def DynamoDBLocalError_def cli_manager_def)

text \<open>
  Claim C7, as amended. While \<open>start\<close> is pending, data on the child's standard
  error is not observed: the event changes neither the promise nor the timers and has
  no effect. A pending promise is rejected by a process-level \<open>error\<close> event and by
  nothing else, with that error's name and message.
\<close>

theorem stderr_not_observed:
  "on_event m args (Stderr_data d) s = (s, []) \<and>
   (promise s = None \<and> promise (fst (on_event m args ev s)) = Some (Inl e)
      \<longrightarrow> (\<exists>err. ev = Child_error err \<and> e = err))"
  by (cases ev) (auto simp add: on_event_def settle_def DynamoDBLocalError_def Let_def split: if_splits)

theorem stderr_not_observed_witness:
  "on_event lib_manager None (Stderr_data ''WARNING'') spawned_state = (spawned_state, []) \<and>
   promise spawned_state = None \<and>
   promise (fst (on_event lib_manager None (Child_error enoent) spawned_state)) = Some (Inl enoent)"
  using stderr_not_observed [of lib_manager None "''WARNING''" spawned_state "Child_error enoent" enoent]
  by (simp add: on_event_def settle_def DynamoDBLocalError_def spawned_state_def enoent_def lib_manager_def)

text \<open>
  Claim C7 as stated fails: after data on standard error, the promise of a freshly
  spawned child is still pending.
\<close>

theorem stderr_counterexample:
  "promise (fst (on_event lib_manager None (Stderr_data ''java.net.BindException'') spawned_state)) = None"
  by (simp add: on_event_def spawned_state_def)

end
